theory Spec2Isabelle
  imports Main
begin

section \<open>JavaScript values\<close>

text \<open>
  The values that flow through \<^verbatim>\<open>src/lib/fetch-handler.js\<close>, in two layers.

  \<open>data\<close> is what a caller passes in: the options and the request-like object. It holds
  no function, so that a responder can be a HOL function of it. \<open>DSignal a\<close> is an
  \<^verbatim>\<open>AbortSignal\<close> whose \<^verbatim>\<open>aborted\<close> flag is \<open>a\<close> at the time of the call.
\<close>

datatype data =
    DUndefined
  | DNull
  | DBool bool
  | DNum int
  | DStr string
  | DObj "(string \<times> data) list"
  | DSignal bool

text \<open>
  \<open>jsval\<close> is what a route may answer with. A plain object is its list of own
  properties; a function carries its own properties too (a spy exposes \<^verbatim>\<open>throws\<close>) and
  its behaviour on an argument list, which either throws (\<open>Inl\<close>) or returns (\<open>Inr\<close>). An
  \<^verbatim>\<open>Error\<close> instance is its \<^verbatim>\<open>name\<close> and \<^verbatim>\<open>message\<close>. A promise is written by the way
  it settles: resolved with a value, rejected with a reason, or never settling.
  Functions are pure: a responder cannot touch the mock.
\<close>

datatype jsval =
    JData data
  | JObj "(string \<times> jsval) list"
  | JFn "(string \<times> jsval) list" "data list \<Rightarrow> jsval + jsval"
  | JError string string
  | Fulfilled jsval
  | Rejected jsval
  | Pending

text \<open>
  What awaiting a promise yields: its value, a thrown reason, or nothing at all when
  the promise never settles.
\<close>

datatype 'a outcome = Returned 'a | Thrown jsval | NeverSettles

fun truthy_data :: "data \<Rightarrow> bool" where
  "truthy_data DUndefined = False"
| "truthy_data DNull = False"
| "truthy_data (DBool b) = b"
| "truthy_data (DNum n) = (n \<noteq> 0)"
| "truthy_data (DStr s) = (s \<noteq> [])"
| "truthy_data _ = True"

fun truthy :: "jsval \<Rightarrow> bool" where
  "truthy (JData d) = truthy_data d"
| "truthy _ = True"

text \<open>\<^verbatim>\<open>null\<close> and \<^verbatim>\<open>undefined\<close>, the two values without properties.\<close>

fun nullish :: "data \<Rightarrow> bool" where
  "nullish DUndefined = True"
| "nullish DNull = True"
| "nullish _ = False"

text \<open>\<^verbatim>\<open>typeof v === 'function'\<close>\<close>

fun is_callable :: "jsval \<Rightarrow> bool" where
  "is_callable (JFn _ _) = True"
| "is_callable _ = False"

text \<open>An own property by name; \<open>d\<close> is what a missing one reads as (\<^verbatim>\<open>undefined\<close>).\<close>

fun lookup :: "'a \<Rightarrow> (string \<times> 'a) list \<Rightarrow> string \<Rightarrow> 'a" where
  "lookup d [] k = d"
| "lookup d ((k', v) # ps) k = (if k' = k then v else lookup d ps k)"

text \<open>
  The engine's \<^verbatim>\<open>TypeError\<close> for a property read on \<^verbatim>\<open>null\<close> or \<^verbatim>\<open>undefined\<close>. The
  wording of the message is the engine's own; this is the one of the V8 of the time,
  with the property name between single quotes.
\<close>

definition type_error :: "string \<Rightarrow> string \<Rightarrow> jsval" where
  "type_error p what =
     JError ''TypeError''
       (''Cannot read property '' @ [CHR 0x27] @ p @ [CHR 0x27] @ '' of '' @ what)"

definition not_a_function :: "string \<Rightarrow> jsval" where
  "not_a_function what = JError ''TypeError'' (what @ '' is not a function'')"

text \<open>
  \<^verbatim>\<open>d.p\<close> on data: a \<^verbatim>\<open>TypeError\<close> on \<^verbatim>\<open>null\<close> and \<^verbatim>\<open>undefined\<close>, an own property
  of an object, the flag of a signal; the handler reads no property that a primitive
  inherits.
\<close>

fun get_data_prop :: "data \<Rightarrow> string \<Rightarrow> jsval + data" where
  "get_data_prop DUndefined p = Inl (type_error p ''undefined'')"
| "get_data_prop DNull p = Inl (type_error p ''null'')"
| "get_data_prop (DObj ps) p = Inr (lookup DUndefined ps p)"
| "get_data_prop (DSignal a) p = Inr (if p = ''aborted'' then DBool a else DUndefined)"
| "get_data_prop _ p = Inr DUndefined"

text \<open>The function a promise answers for \<^verbatim>\<open>then\<close>.\<close>

definition promise_then :: jsval where
  "promise_then = JFn [] (\<lambda>_. Inr (JData DUndefined))"

text \<open>
  \<^verbatim>\<open>v.p\<close>: as on data, and an own property of a function, the fields of an error,
  \<^verbatim>\<open>then\<close> of a promise.
\<close>

fun get_prop :: "jsval \<Rightarrow> string \<Rightarrow> jsval + jsval" where
  "get_prop (JData d) p = map_sum id JData (get_data_prop d p)"
| "get_prop (JObj ps) p = Inr (lookup (JData DUndefined) ps p)"
| "get_prop (JFn ps _) p = Inr (lookup (JData DUndefined) ps p)"
| "get_prop (JError n m) p =
     Inr (if p = ''name'' then JData (DStr n)
          else if p = ''message'' then JData (DStr m) else JData DUndefined)"
| "get_prop (Fulfilled _) p = Inr (if p = ''then'' then promise_then else JData DUndefined)"
| "get_prop (Rejected _) p = Inr (if p = ''then'' then promise_then else JData DUndefined)"
| "get_prop Pending p = Inr (if p = ''then'' then promise_then else JData DUndefined)"

text \<open>\<^verbatim>\<open>f(...args)\<close>; calling what is not a function is a \<^verbatim>\<open>TypeError\<close>.\<close>

fun call :: "jsval \<Rightarrow> data list \<Rightarrow> jsval + jsval" where
  "call (JFn _ f) args = f args"
| "call _ args = Inl (not_a_function ''value'')"

text \<open>
  An object or function that is not a promise but has a callable \<^verbatim>\<open>then\<close> is a
  thenable all the same: the engine calls its \<^verbatim>\<open>then\<close> with two callbacks. The
  callbacks are not data and a pure function could not call them, so the function is
  run on no argument: if it throws the await throws that, otherwise the await never
  completes.
\<close>

definition await_thenable :: "jsval \<Rightarrow> jsval \<Rightarrow> jsval outcome" where
  "await_thenable v th =
     (if is_callable th
      then (case call th [] of Inl e \<Rightarrow> Thrown e | Inr _ \<Rightarrow> NeverSettles)
      else Returned v)"

text \<open>
  \<^verbatim>\<open>await v\<close>, and equally what a promise resolved with \<open>v\<close> settles to: a promise is
  followed to its settlement (a promise resolved with a thenable follows that one), a
  value that is no thenable is delivered as it is.
\<close>

fun await :: "jsval \<Rightarrow> jsval outcome" where
  "await (Fulfilled v) = await v"
| "await (Rejected e) = Thrown e"
| "await Pending = NeverSettles"
| "await (JObj ps) = await_thenable (JObj ps) (lookup (JData DUndefined) ps ''then'')"
| "await (JFn ps f) = await_thenable (JFn ps f) (lookup (JData DUndefined) ps ''then'')"
| "await (JData d) = Returned (JData d)"
| "await (JError n m) = Returned (JError n m)"

text \<open>
  What the promise of an \<^verbatim>\<open>async\<close> function settles to when the body ends in
  \<^verbatim>\<open>return e\<close>, \<open>e\<close> being a call that may throw.
\<close>

definition async_return :: "jsval + jsval \<Rightarrow> jsval outcome" where
  "async_return r = (case r of Inl e \<Rightarrow> Thrown e | Inr v \<Rightarrow> await v)"

text \<open>\<^verbatim>\<open>typeof v.then === 'function'\<close>, where the property can be read.\<close>

definition then_callable :: "jsval \<Rightarrow> bool" where
  "then_callable v = (case get_prop v ''then'' of Inl _ \<Rightarrow> False | Inr t \<Rightarrow> is_callable t)"

text \<open>What an await delivers is never a thenable again (unless it is a function).\<close>

lemma get_data_prop_not_callable: "get_prop (JData d) p = Inr t \<Longrightarrow> \<not> is_callable t"
  by (cases "get_data_prop d p") auto

lemma await_not_thenable: "await x = Returned v \<Longrightarrow> is_callable v \<or> \<not> then_callable v"
proof (induction x rule: await.induct)
  case (1 v')
  then show ?case by simp
next
  case (4 ps)
  then show ?case
    by (auto simp: await_thenable_def then_callable_def split: if_splits sum.splits)
next
  case (5 ps f)
  then show ?case by (auto simp: await_thenable_def split: if_splits sum.splits)
next
  case (6 d)
  then show ?case
    by (auto simp: then_callable_def dest: get_data_prop_not_callable split: sum.splits)
next
  case (7 n m)
  then show ?case by (auto simp: then_callable_def)
qed simp_all

section \<open>The resolver\<close>

text \<open>
  What the router hands to the resolver: either the matched route object itself, or
  an object literal with a \<^verbatim>\<open>response\<close> and perhaps a \<^verbatim>\<open>responseIsFetch\<close>.
\<close>

record route =
  matcher :: "string \<Rightarrow> data \<Rightarrow> data \<Rightarrow> jsval + bool"
  response :: jsval
  route_identifier :: data
  responseIsFetch :: "bool option"

datatype match_result = Matched route | Synthetic jsval "bool option"

fun mr_response :: "match_result \<Rightarrow> jsval" where
  "mr_response (Matched r) = response r"
| "mr_response (Synthetic v _) = v"

fun mr_responseIsFetch :: "match_result \<Rightarrow> bool option" where
  "mr_responseIsFetch (Matched r) = responseIsFetch r"
| "mr_responseIsFetch (Synthetic _ b) = b"

text \<open>
  The body of the \<^verbatim>\<open>while (true)\<close> loop of \<^verbatim>\<open>resolve\<close> (lines 33 to 58), on the current
  \<open>resp\<close>. All three calls are under \<^verbatim>\<open>return\<close>: the promise of \<^verbatim>\<open>resolve\<close> is resolved
  with what the function returned, and the loop is left. Only the promise branch
  assigns and goes round again.
\<close>

function resolve_loop :: "jsval \<Rightarrow> bool \<Rightarrow> string \<Rightarrow> data \<Rightarrow> data \<Rightarrow> jsval outcome" where
  "resolve_loop resp isFetch url options request =
     (if is_callable resp then
        (if isFetch then
           (if truthy_data request then async_return (call resp [request])
            else async_return (call resp [DStr url, options]))
         else async_return (call resp [DStr url, options, request]))
      else
        (case get_prop resp ''then'' of
           Inl e \<Rightarrow> Thrown e
         | Inr th \<Rightarrow>
             if is_callable th then
               (case await resp of
                  Returned v \<Rightarrow> resolve_loop v isFetch url options request
                | Thrown e \<Rightarrow> Thrown e
                | NeverSettles \<Rightarrow> NeverSettles)
             else async_return (Inr resp)))"
  by pat_completeness auto

termination resolve_loop
proof (relation "measure (\<lambda>(resp, isFetch, url, options, request).
          if \<not> is_callable resp \<and> then_callable resp then 1 else 0)", goal_cases)
  case 1
  then show ?case by simp
next
  case (2 resp isFetch url options request th v)
  from await_not_thenable[of resp v] 2 show ?case
    by (auto simp: then_callable_def)
qed

text \<open>
  \<^verbatim>\<open>resolve\<close> (lines 19 to 59): the first parameter is destructured, an absent
  \<^verbatim>\<open>responseIsFetch\<close> reads as \<^verbatim>\<open>false\<close>. The result is what the promise of this
  \<^verbatim>\<open>async\<close> function settles to.
\<close>

definition resolve :: "match_result \<Rightarrow> string \<Rightarrow> data \<Rightarrow> data \<Rightarrow> jsval outcome" where
  "resolve mr url options request =
     resolve_loop (mr_response mr)
       (case mr_responseIsFetch mr of None \<Rightarrow> False | Some b \<Rightarrow> b)
       url options request"

section \<open>The mock and its collaborators\<close>

text \<open>
  \<^verbatim>\<open>this.config\<close>. \<open>fallbackToNetwork\<close> is \<^verbatim>\<open>false\<close>, \<^verbatim>\<open>true\<close> or \<^verbatim>\<open>'always'\<close>;
  \<open>isResponse\<close> stands for \<^verbatim>\<open>this.config.Response.prototype.isPrototypeOf\<close>. The
  promise constructor \<^verbatim>\<open>this.config.Promise\<close> is taken to be the native one.
\<close>

record config =
  fallbackToNetwork :: data
  warnOnFallback :: data
  fetch :: jsval
  isResponse :: "jsval \<Rightarrow> bool"

text \<open>
  An entry of \<^verbatim>\<open>this._calls\<close>, as \<^verbatim>\<open>push\<close> builds it: the array \<^verbatim>\<open>[url, options]\<close>
  with three more properties.
\<close>

record call_record =
  cr_url :: string
  cr_options :: data
  cr_request :: data
  cr_identifier :: data
  cr_isUnmatched :: data

text \<open>
  An entry of \<^verbatim>\<open>this._holdingPromises\<close>: the promise that \<^verbatim>\<open>done\<close> resolves.
\<close>

datatype marker = MarkerUnresolved | MarkerResolved

text \<open>
  \<^verbatim>\<open>this\<close>. \<open>console\<close> collects the lines written by \<^verbatim>\<open>console.warn\<close>.
\<close>

record fetchmock =
  config :: config
  routes :: "route list"
  fallbackResponse :: jsval
  realFetch :: jsval
  isSandbox :: data
  calls :: "call_record list"
  holdingPromises :: "marker list"
  console :: "string list"

text \<open>
  The two required modules, whose code is not part of \<^verbatim>\<open>fetch-handler.js\<close>, as
  parameters: \<^verbatim>\<open>response-builder\<close>, called with \<^verbatim>\<open>url\<close>, \<^verbatim>\<open>responseConfig\<close>,
  \<^verbatim>\<open>fetchMock\<close> and \<^verbatim>\<open>route\<close>, and \<^verbatim>\<open>requestUtils.normalizeRequest\<close>, which has the
  \<^verbatim>\<open>Request\<close> class of the configuration built in. Either may throw.
\<close>

record modules =
  responseBuilder :: "string \<Rightarrow> jsval \<Rightarrow> fetchmock \<Rightarrow> match_result \<Rightarrow> jsval + jsval"
  normalizeRequest :: "data \<Rightarrow> data \<Rightarrow> jsval + (string \<times> data \<times> data)"

section \<open>The call log and the router\<close>

text \<open>\<^verbatim>\<open>push\<close> (lines 185 to 191).\<close>

definition push :: "fetchmock \<Rightarrow> call_record \<Rightarrow> fetchmock" where
  "push fm args = fm\<lparr>calls := calls fm @ [args]\<rparr>"

text \<open>
  \<^verbatim>\<open>this.routes.find(route => route.matcher(url, options, request))\<close>: the matchers
  are called in the order of the list, up to the first that answers true; one that
  throws ends the search with its error.
\<close>

fun find_route :: "route list \<Rightarrow> string \<Rightarrow> data \<Rightarrow> data \<Rightarrow> jsval + route option" where
  "find_route [] url options request = Inr None"
| "find_route (r # rs) url options request =
     (case matcher r url options request of
        Inl e \<Rightarrow> Inl e
      | Inr b \<Rightarrow> if b then Inr (Some r) else find_route rs url options request)"

text \<open>
  The two objects handed to \<^verbatim>\<open>push\<close>: by \<^verbatim>\<open>router\<close> for a match (lines 165 to
  170) and by \<^verbatim>\<open>executeRouter\<close> for a request without one (line 117). A property that
  the object literal leaves out reads as \<^verbatim>\<open>undefined\<close>.
\<close>

definition matched_call :: "string \<Rightarrow> data \<Rightarrow> data \<Rightarrow> route \<Rightarrow> call_record" where
  "matched_call url options request r =
     \<lparr>cr_url = url, cr_options = options, cr_request = request,
      cr_identifier = route_identifier r, cr_isUnmatched = DUndefined\<rparr>"

definition unmatched_call :: "string \<Rightarrow> data \<Rightarrow> data \<Rightarrow> call_record" where
  "unmatched_call url options request =
     \<lparr>cr_url = url, cr_options = options, cr_request = request,
      cr_identifier = DUndefined, cr_isUnmatched = DBool True\<rparr>"

text \<open>\<^verbatim>\<open>router\<close> (lines 161 to 173); \<open>None\<close> is the \<^verbatim>\<open>undefined\<close> it returns without a match.\<close>

definition router ::
  "fetchmock \<Rightarrow> string \<Rightarrow> data \<Rightarrow> data \<Rightarrow> (jsval + route option) \<times> fetchmock" where
  "router fm url options request =
     (case find_route (routes fm) url options request of
        Inl e \<Rightarrow> (Inl e, fm)
      | Inr None \<Rightarrow> (Inr None, fm)
      | Inr (Some route) \<Rightarrow>
          (Inr (Some route),
           push fm (matched_call url options request route)))"

text \<open>\<^verbatim>\<open>getNativeFetch\<close> (lines 175 to 183).\<close>

definition getNativeFetch :: "fetchmock \<Rightarrow> jsval + jsval" where
  "getNativeFetch fm =
     (let func = (if truthy (realFetch fm) then realFetch fm
                  else if truthy_data (isSandbox fm) then fetch (config fm)
                  else JData (isSandbox fm))
      in if \<not> truthy func
         then Inl (JError ''Error''
           ''fetch-mock: Falling back to network only available on gloabl fetch-mock, or by setting config.fetch on sandboxed fetch-mock'')
         else Inr func)"

text \<open>
  \<^verbatim>\<open>d && d.p\<close>: a truthy value is neither \<^verbatim>\<open>null\<close> nor \<^verbatim>\<open>undefined\<close>, so the read
  cannot throw.
\<close>

definition guarded_prop :: "data \<Rightarrow> string \<Rightarrow> data" where
  "guarded_prop d p =
     (if truthy_data d
      then (case get_data_prop d p of Inl _ \<Rightarrow> DUndefined | Inr v \<Rightarrow> v)
      else d)"

text \<open>The decimal digits of a number, for the template literals.\<close>

fun digits :: "nat \<Rightarrow> string" where
  "digits n = (if n < 10 then [''0123456789'' ! n]
               else digits (n div 10) @ [''0123456789'' ! (n mod 10)])"

fun to_string :: "data \<Rightarrow> string" where
  "to_string DUndefined = ''undefined''"
| "to_string DNull = ''null''"
| "to_string (DBool b) = (if b then ''true'' else ''false'')"
| "to_string (DNum n) = (if n < 0 then ''-'' @ digits (nat (- n)) else digits (nat n))"
| "to_string (DStr s) = s"
| "to_string (DObj ps) = ''[object Object]''"
| "to_string (DSignal a) = ''[object AbortSignal]''"

text \<open>\<^verbatim>\<open>(options && options.method) || 'GET'\<close>, as a template literal prints it.\<close>

definition method_text :: "data \<Rightarrow> string" where
  "method_text options =
     (let m = guarded_prop options ''method''
      in if truthy_data m then to_string m else ''GET'')"

text \<open>
  \<^verbatim>\<open>executeRouter\<close> (lines 99 to 134). The result is the error thrown or the object
  returned, with the mock as the call leaves it.
\<close>

definition executeRouter ::
  "fetchmock \<Rightarrow> string \<Rightarrow> data \<Rightarrow> data \<Rightarrow> (jsval + match_result) \<times> fetchmock" where
  "executeRouter fm url options request =
     (if fallbackToNetwork (config fm) = DStr ''always''
      then (map_sum id (\<lambda>f. Synthetic f (Some True)) (getNativeFetch fm), fm)
      else
        (case router fm url options request of
           (Inl e, fm1) \<Rightarrow> (Inl e, fm1)
         | (Inr (Some route), fm1) \<Rightarrow> (Inr (Matched route), fm1)
         | (Inr None, fm1) \<Rightarrow>
             (let fm2 = (if truthy_data (warnOnFallback (config fm1))
                         then fm1\<lparr>console := console fm1 @
                                [''Unmatched '' @ method_text options @ '' to '' @ url]\<rparr>
                         else fm1);
                  fm3 = push fm2 (unmatched_call url options request)
              in if truthy (fallbackResponse fm3)
                 then (Inr (Synthetic (fallbackResponse fm3) None), fm3)
                 else if \<not> truthy_data (fallbackToNetwork (config fm3))
                 then (Inl (JError ''Error''
                         (''fetch-mock: No fallback response defined for '' @
                          method_text options @ '' to '' @ url)), fm3)
                 else (map_sum id (\<lambda>f. Synthetic f (Some True)) (getNativeFetch fm3), fm3))))"

section \<open>Response generation\<close>

text \<open>
  \<^verbatim>\<open>generateResponse\<close> (lines 136 to 159), an \<^verbatim>\<open>async\<close> function: what its promise
  settles to.
\<close>

definition generateResponse ::
  "modules \<Rightarrow> fetchmock \<Rightarrow> match_result \<Rightarrow> string \<Rightarrow> data \<Rightarrow> data \<Rightarrow> jsval outcome" where
  "generateResponse ms fm route url options request =
     (case resolve route url options request of
        Thrown e \<Rightarrow> Thrown e
      | NeverSettles \<Rightarrow> NeverSettles
      | Returned resp \<Rightarrow>
          (case get_prop resp ''throws'' of
             Inl e \<Rightarrow> Thrown e
           | Inr t \<Rightarrow>
               if truthy t \<and> \<not> is_callable resp then Thrown t
               else if isResponse (config fm) resp then async_return (Inr resp)
               else async_return (responseBuilder ms url resp fm route)))"

section \<open>The entry point\<close>

text \<open>\<^verbatim>\<open>new AbortError()\<close> (lines 8 to 17).\<close>

definition AbortError :: jsval where
  "AbortError = JError ''AbortError'' ''The operation was aborted.''"

text \<open>
  What a call that got past the router leaves behind: \<open>settled\<close> is what the returned
  promise settles to, \<open>generation\<close> the promise that \<^verbatim>\<open>this.generateResponse(...)\<close>
  made on line 91, by what it settles to, or \<open>None\<close> when line 91 was not reached.
\<close>

record fetch_promise =
  settled :: "jsval outcome"
  generation :: "jsval outcome option"

datatype fetch_result = SyncThrow jsval | Promise fetch_promise

fun settles :: "'a outcome \<Rightarrow> bool" where
  "settles NeverSettles = False"
| "settles _ = True"

text \<open>
  \<^verbatim>\<open>done()\<close>: resolves the holding promise that this call pushed, the one at index
  \<open>i\<close>. Resolving a resolved promise changes nothing.
\<close>

definition done_at :: "nat \<Rightarrow> fetchmock \<Rightarrow> fetchmock" where
  "done_at i fm = fm\<lparr>holdingPromises := (holdingPromises fm)[i := MarkerResolved]\<rparr>"

text \<open>
  \<^verbatim>\<open>options.signal.addEventListener('abort', abort)\<close>: an \<^verbatim>\<open>AbortSignal\<close> takes the
  listener; on anything else that data can be, the property is no function and the
  call throws. What the listener does when the signal fires after the call is outside
  this model.
\<close>

fun addEventListener :: "data \<Rightarrow> jsval + unit" where
  "addEventListener (DSignal a) = Inr ()"
| "addEventListener _ = Inl (not_a_function ''options.signal.addEventListener'')"

text \<open>
  Lines 78 and 84: the options carry a signal, and the signal is already aborted when
  the call is made.
\<close>

definition aborted_at_call :: "data \<Rightarrow> bool" where
  "aborted_at_call options =
     (let signal = guarded_prop options ''signal''
      in truthy_data signal \<and> truthy_data (guarded_prop signal ''aborted''))"

text \<open>
  Lines 91 to 93: \<^verbatim>\<open>this.generateResponse(...).then(res, rej).then(done, done)\<close>.
  \<open>first\<close> is the settlement the outer promise already has, if any: a promise keeps
  its first settlement.
\<close>

definition generate ::
  "modules \<Rightarrow> fetchmock \<Rightarrow> nat \<Rightarrow> jsval outcome option \<Rightarrow> match_result \<Rightarrow>
   string \<Rightarrow> data \<Rightarrow> data \<Rightarrow> fetch_promise \<times> fetchmock" where
  "generate ms fm i first route url options request =
     (let g = generateResponse ms fm route url options request
      in (\<lparr>settled = (case first of Some s \<Rightarrow> s | None \<Rightarrow> g), generation = Some g\<rparr>,
          if settles g then done_at i fm else fm))"

text \<open>
  The executor of the returned promise (lines 77 to 94). With a truthy
  \<^verbatim>\<open>options.signal\<close> that is already aborted, \<^verbatim>\<open>abort()\<close> rejects and calls
  \<^verbatim>\<open>done\<close>; the executor then goes on. An error thrown by the executor rejects the
  promise unless it is settled.
\<close>

definition executor ::
  "modules \<Rightarrow> fetchmock \<Rightarrow> nat \<Rightarrow> match_result \<Rightarrow> string \<Rightarrow> data \<Rightarrow> data \<Rightarrow>
   fetch_promise \<times> fetchmock" where
  "executor ms fm i route url options request =
     (let signal = guarded_prop options ''signal''
      in if truthy_data signal then
           (let aborted = truthy_data (guarded_prop signal ''aborted'');
                fm' = (if aborted then done_at i fm else fm);
                first = (if aborted then Some (Thrown AbortError) else None)
            in case addEventListener signal of
                 Inl e \<Rightarrow>
                   (\<lparr>settled = (case first of Some s \<Rightarrow> s | None \<Rightarrow> Thrown e),
                     generation = None\<rparr>, fm')
               | Inr _ \<Rightarrow> generate ms fm' i first route url options request)
         else generate ms fm i None route url options request)"

text \<open>
  \<^verbatim>\<open>fetchHandler\<close> (lines 61 to 95). The \<^verbatim>\<open>request\<close> argument is overwritten by the
  normalised one before it is read. An error of the normaliser or of
  \<^verbatim>\<open>executeRouter\<close> leaves the function as a synchronous throw.
\<close>

definition fetchHandler ::
  "modules \<Rightarrow> fetchmock \<Rightarrow> data \<Rightarrow> data \<Rightarrow> data \<Rightarrow> fetch_result \<times> fetchmock" where
  "fetchHandler ms fm url0 options0 request0 =
     (case normalizeRequest ms url0 options0 of
        Inl e \<Rightarrow> (SyncThrow e, fm)
      | Inr (url, options, request) \<Rightarrow>
          (case executeRouter fm url options request of
             (Inl e, fm1) \<Rightarrow> (SyncThrow e, fm1)
           | (Inr route, fm1) \<Rightarrow>
               (let i = length (holdingPromises fm1);
                    fm2 = fm1\<lparr>holdingPromises := holdingPromises fm1 @ [MarkerUnresolved]\<rparr>;
                    (p, fm3) = executor ms fm2 i route url options request
                in (Promise p, fm3))))"

section \<open>Concrete inputs\<close>

text \<open>A responder that answers with the number of arguments it was called with.\<close>

definition count_args :: jsval where
  "count_args = JFn [] (\<lambda>args. Inr (JData (DNum (int (length args)))))"

text \<open>
  The literal \<^verbatim>\<open>200\<close>, the responder \<^verbatim>\<open>() => 200\<close> and the responder
  \<^verbatim>\<open>() => () => 200\<close>.
\<close>

definition literal_200 :: jsval where
  "literal_200 = JData (DNum 200)"

definition fn_200 :: jsval where
  "fn_200 = JFn [] (\<lambda>_. Inr literal_200)"

definition fn_fn_200 :: jsval where
  "fn_fn_200 = JFn [] (\<lambda>_. Inr fn_200)"

text \<open>
  A response builder that answers every configuration with the same object, and a
  normaliser for calls with a url string (no request object).
\<close>

definition const_builder :: modules where
  "const_builder =
     \<lparr>responseBuilder = (\<lambda>url cfg fm route. Inr (JObj [(''status'', JData (DNum 200))])),
      normalizeRequest = (\<lambda>url options. case url of
           DStr u \<Rightarrow> Inr (u, options, DUndefined)
         | _ \<Rightarrow> Inl (JError ''TypeError'' ''fetch-mock: Invalid arguments passed to fetch''))\<rparr>"

text \<open>A mock with no route, no fallback response and no fallback to the network.\<close>

definition config_off :: config where
  "config_off = \<lparr>fallbackToNetwork = DBool False, warnOnFallback = DBool False,
                  fetch = JData DUndefined, isResponse = (\<lambda>_. False)\<rparr>"

definition mock_off :: fetchmock where
  "mock_off = \<lparr>config = config_off, routes = [], fallbackResponse = JData DUndefined,
                realFetch = JData DUndefined, isSandbox = DBool False, calls = [],
                holdingPromises = [], console = []\<rparr>"

text \<open>
  \<^verbatim>\<open>new Error("boom")\<close>, the response \<^verbatim>\<open>{throws: new Error("boom"), status: 500}\<close>, a
  spy (a function with a \<^verbatim>\<open>throws\<close> property) and a responder that answers with
  the spy.
\<close>

definition boom :: jsval where
  "boom = JError ''Error'' ''boom''"

definition throws_boom :: jsval where
  "throws_boom = JObj [(''throws'', boom), (''status'', JData (DNum 500))]"

definition spy :: jsval where
  "spy = JFn [(''throws'', boom)] (\<lambda>_. Inr (JData DUndefined))"

definition returns_spy :: jsval where
  "returns_spy = JFn [] (\<lambda>_. Inr spy)"

text \<open>A promise resolved with \<^verbatim>\<open>null\<close> and the responder \<^verbatim>\<open>() => undefined\<close>.\<close>

definition resolves_to_null :: jsval where
  "resolves_to_null = Fulfilled (JData DNull)"

definition returns_undefined :: jsval where
  "returns_undefined = JFn [] (\<lambda>_. Inr (JData DUndefined))"

text \<open>
  Three routes: one for \<^verbatim>\<open>/users\<close>, one for \<^verbatim>\<open>/other\<close>, one that accepts every
  request; and a mock that registered them in the order other, users, any.
\<close>

definition users_route :: route where
  "users_route = \<lparr>matcher = (\<lambda>url options request. Inr (url = ''/users'')),
                   response = literal_200, route_identifier = DStr ''users'',
                   responseIsFetch = None\<rparr>"

definition other_route :: route where
  "other_route = \<lparr>matcher = (\<lambda>url options request. Inr (url = ''/other'')),
                   response = throws_boom, route_identifier = DStr ''other'',
                   responseIsFetch = None\<rparr>"

definition any_route :: route where
  "any_route = \<lparr>matcher = (\<lambda>url options request. Inr True),
                 response = fn_200, route_identifier = DStr ''any'',
                 responseIsFetch = None\<rparr>"

definition mock_routes :: fetchmock where
  "mock_routes = mock_off\<lparr>routes := [other_route, users_route, any_route]\<rparr>"

definition mock_users :: fetchmock where
  "mock_users = mock_off\<lparr>routes := [users_route]\<rparr>"

text \<open>
  A native \<^verbatim>\<open>fetch\<close>, and three mocks that can reach it: one that always falls back to
  the network, one that falls back for unmatched requests, and one that has a fallback
  response as well.
\<close>

definition native_fetch :: jsval where
  "native_fetch = JFn [] (\<lambda>_. Inr (Fulfilled (JObj [(''status'', JData (DNum 204))])))"

definition mock_always :: fetchmock where
  "mock_always = mock_off\<lparr>config := config_off\<lparr>fallbackToNetwork := DStr ''always''\<rparr>,
       realFetch := native_fetch, routes := [any_route]\<rparr>"

definition mock_network :: fetchmock where
  "mock_network = mock_off\<lparr>config := config_off\<lparr>fallbackToNetwork := DBool True\<rparr>,
       realFetch := native_fetch, routes := [users_route]\<rparr>"

definition mock_fallback :: fetchmock where
  "mock_fallback = mock_network\<lparr>fallbackResponse := literal_200\<rparr>"

text \<open>
  The same two mocks with no native fetch within reach, and the error that
  \<^verbatim>\<open>getNativeFetch\<close> then throws.
\<close>

definition mock_always_offline :: fetchmock where
  "mock_always_offline =
     mock_off\<lparr>config := config_off\<lparr>fallbackToNetwork := DStr ''always''\<rparr>,
       routes := [any_route]\<rparr>"

definition mock_network_offline :: fetchmock where
  "mock_network_offline =
     mock_off\<lparr>config := config_off\<lparr>fallbackToNetwork := DBool True\<rparr>,
       routes := [users_route]\<rparr>"

definition no_native_fetch :: jsval where
  "no_native_fetch = JError ''Error''
     ''fetch-mock: Falling back to network only available on gloabl fetch-mock, or by setting config.fetch on sandboxed fetch-mock''"

text \<open>A promise resolved with the responder that counts its arguments.\<close>

definition promised_count_args :: jsval where
  "promised_count_args = Fulfilled count_args"

text \<open>
  Options whose signal is an aborted \<^verbatim>\<open>AbortSignal\<close>, and options whose signal is a
  plain object \<^verbatim>\<open>{aborted: true}\<close>, which cannot take a listener.
\<close>

definition aborted_options :: data where
  "aborted_options = DObj [(''signal'', DSignal True)]"

definition aborted_plain :: data where
  "aborted_plain = DObj [(''signal'', DObj [(''aborted'', DBool True)])]"

text \<open>A route that answers with a promise that never settles.\<close>

definition slow_route :: route where
  "slow_route = \<lparr>matcher = (\<lambda>url options request. Inr (url = ''/slow'')),
                  response = Pending, route_identifier = DStr ''slow'',
                  responseIsFetch = None\<rparr>"

definition mock_slow :: fetchmock where
  "mock_slow = mock_off\<lparr>routes := [slow_route]\<rparr>"

section \<open>Properties of the resolver\<close>

text \<open>
  Claim C1. A response that is a function returning a function returning a literal
  should resolve to the literal. On the responder \<^verbatim>\<open>() => () => 200\<close> the loop calls
  the outer function under \<^verbatim>\<open>return\<close> (line 47) and so ends with the inner function,
  not with \<^verbatim>\<open>200\<close>.
\<close>

theorem resolve_nested_function_stops_early:
  "resolve (Synthetic fn_fn_200 None) ''/users'' DUndefined DUndefined = Returned fn_200 \<and>
   resolve (Synthetic fn_fn_200 None) ''/users'' DUndefined DUndefined \<noteq> Returned literal_200"
  by (simp add: resolve_def fn_fn_200_def fn_200_def literal_200_def async_return_def
      await_thenable_def)

lemma await_callable_cases:
  "\<not> is_callable p \<Longrightarrow> await p = Returned f \<Longrightarrow> is_callable f \<Longrightarrow> \<exists>v. p = Fulfilled v"
  by (cases p) (auto simp: await_thenable_def split: if_splits sum.splits)

lemma resolve_loop_callable:
  "is_callable f \<Longrightarrow>
   resolve_loop f b url options request =
     async_return (call f
       (if b then (if truthy_data request then [request] else [DStr url, options])
        else [DStr url, options, request]))"
  by simp

lemma resolve_loop_awaited_callable:
  assumes "\<not> is_callable p" and "await p = Returned f" and "is_callable f"
  shows "resolve_loop p b url options request =
     async_return (call f
       (if b then (if truthy_data request then [request] else [DStr url, options])
        else [DStr url, options, request]))"
proof -
  from await_callable_cases[OF assms] obtain v where p: "p = Fulfilled v" ..
  have "resolve_loop p b url options request = resolve_loop f b url options request"
    using assms(2) by (subst resolve_loop.simps) (simp add: p promise_then_def)
  then show ?thesis using assms(3) by (simp only: resolve_loop_callable)
qed

lemma isFetch_flag:
  "(case mr_responseIsFetch mr of None \<Rightarrow> False | Some b \<Rightarrow> b) = (mr_responseIsFetch mr = Some True)"
  by (cases "mr_responseIsFetch mr") auto

text \<open>
  Claim C7. Whenever the loop reaches a callable current value, be it the response
  itself or what a promise delivered on the way (lines 49 to 52), it is called with the
  original request alone if \<^verbatim>\<open>responseIsFetch\<close> is true and the request is there, with
  the url and the options if \<^verbatim>\<open>responseIsFetch\<close> is true and there is no request, and
  with the url, the options and the request otherwise.
\<close>

theorem resolve_call_arguments:
  "(is_callable (mr_response mr) \<longrightarrow>
      resolve mr url options request =
        async_return (call (mr_response mr)
          (if mr_responseIsFetch mr = Some True
           then (if truthy_data request then [request] else [DStr url, options])
           else [DStr url, options, request]))) \<and>
   (\<not> is_callable (mr_response mr) \<and> await (mr_response mr) = Returned f \<and> is_callable f \<longrightarrow>
      resolve mr url options request =
        async_return (call f
          (if mr_responseIsFetch mr = Some True
           then (if truthy_data request then [request] else [DStr url, options])
           else [DStr url, options, request])))"
proof (intro conjI impI)
  assume "is_callable (mr_response mr)"
  then show "resolve mr url options request =
        async_return (call (mr_response mr)
          (if mr_responseIsFetch mr = Some True
           then (if truthy_data request then [request] else [DStr url, options])
           else [DStr url, options, request]))"
    unfolding resolve_def isFetch_flag by (rule resolve_loop_callable)
next
  assume "\<not> is_callable (mr_response mr) \<and> await (mr_response mr) = Returned f \<and> is_callable f"
  then show "resolve mr url options request =
        async_return (call f
          (if mr_responseIsFetch mr = Some True
           then (if truthy_data request then [request] else [DStr url, options])
           else [DStr url, options, request]))"
    unfolding resolve_def isFetch_flag by (intro resolve_loop_awaited_callable) simp_all
qed

theorem resolve_call_arguments_witness:
  "is_callable (mr_response (Synthetic count_args (Some True))) \<and>
   resolve (Synthetic count_args (Some True)) ''/a'' (DObj []) (DObj []) =
     Returned (JData (DNum 1)) \<and>
   resolve (Synthetic count_args (Some True)) ''/a'' (DObj []) DUndefined =
     Returned (JData (DNum 2)) \<and>
   resolve (Synthetic count_args None) ''/a'' (DObj []) (DObj []) =
     Returned (JData (DNum 3)) \<and>
   \<not> is_callable (mr_response (Synthetic promised_count_args (Some True))) \<and>
   await (mr_response (Synthetic promised_count_args (Some True))) = Returned count_args \<and>
   is_callable count_args \<and>
   resolve (Synthetic promised_count_args (Some True)) ''/a'' (DObj []) (DObj []) =
     Returned (JData (DNum 1)) \<and>
   resolve (Synthetic promised_count_args (Some True)) ''/a'' (DObj []) DUndefined =
     Returned (JData (DNum 2)) \<and>
   resolve (Synthetic promised_count_args None) ''/a'' (DObj []) (DObj []) =
     Returned (JData (DNum 3))"
  using resolve_call_arguments [of "Synthetic count_args (Some True)" "''/a''" "DObj []" "DObj []" count_args]
    resolve_call_arguments [of "Synthetic count_args (Some True)" "''/a''" "DObj []" DUndefined count_args]
    resolve_call_arguments [of "Synthetic count_args None" "''/a''" "DObj []" "DObj []" count_args]
    resolve_call_arguments [of "Synthetic promised_count_args (Some True)" "''/a''" "DObj []" "DObj []" count_args]
    resolve_call_arguments [of "Synthetic promised_count_args (Some True)" "''/a''" "DObj []" DUndefined count_args]
    resolve_call_arguments [of "Synthetic promised_count_args None" "''/a''" "DObj []" "DObj []" count_args]
  by (simp add: count_args_def promised_count_args_def async_return_def await_thenable_def)

lemma await_data_cases:
  "await p = Returned (JData d) \<Longrightarrow> p = JData d \<or> (\<exists>v. p = Fulfilled v)"
  by (cases p) (auto simp: await_thenable_def split: if_splits sum.splits)

lemma nullish_read: "nullish d \<Longrightarrow> get_data_prop d p = Inl (type_error p (to_string d))"
  by (cases d) simp_all

lemma resolve_loop_nullish:
  assumes "nullish d" and "await p = Returned (JData d)"
  shows "resolve_loop p b url options request = Thrown (type_error ''then'' (to_string d))"
proof -
  have base: "resolve_loop (JData d) b url options request =
                Thrown (type_error ''then'' (to_string d))"
    using assms(1) by (simp add: nullish_read)
  from await_data_cases[OF assms(2)] show ?thesis
  proof
    assume "p = JData d"
    with base show ?thesis by simp
  next
    assume "\<exists>v. p = Fulfilled v"
    then obtain v where "p = Fulfilled v" ..
    with assms(2) base show ?thesis by (simp add: promise_then_def)
  qed
qed

text \<open>
  Claim C10. The pipeline is not total on absent values. When the response is
  \<^verbatim>\<open>null\<close> or \<^verbatim>\<open>undefined\<close>, or a promise that settles to one of them, \<^verbatim>\<open>resolve\<close>
  rejects with the \<^verbatim>\<open>TypeError\<close> of reading \<^verbatim>\<open>then\<close>, and so does
  \<^verbatim>\<open>generateResponse\<close>; when \<^verbatim>\<open>resolve\<close> delivers such a value (a responder returned
  it), \<^verbatim>\<open>generateResponse\<close> rejects with the \<^verbatim>\<open>TypeError\<close> of reading \<^verbatim>\<open>throws\<close>.
  In neither case does the value reach the response builder.
\<close>

theorem nullish_response_type_error:
  assumes "nullish d"
  shows "(await (mr_response mr) = Returned (JData d) \<longrightarrow>
            resolve mr url options request = Thrown (type_error ''then'' (to_string d)) \<and>
            generateResponse ms fm mr url options request =
              Thrown (type_error ''then'' (to_string d))) \<and>
         (resolve mr url options request = Returned (JData d) \<longrightarrow>
            generateResponse ms fm mr url options request =
              Thrown (type_error ''throws'' (to_string d)))"
  using assms
  by (auto simp: resolve_def generateResponse_def resolve_loop_nullish nullish_read
      simp del: resolve_loop.simps)

theorem nullish_response_type_error_witness:
  "nullish DNull \<and>
   await (mr_response (Synthetic resolves_to_null None)) = Returned (JData DNull) \<and>
   resolve (Synthetic resolves_to_null None) ''/a'' DUndefined DUndefined =
     Thrown (type_error ''then'' ''null'') \<and>
   generateResponse const_builder mock_off (Synthetic resolves_to_null None) ''/a''
     DUndefined DUndefined = Thrown (type_error ''then'' ''null'') \<and>
   nullish DUndefined \<and>
   resolve (Synthetic returns_undefined None) ''/a'' DUndefined DUndefined =
     Returned (JData DUndefined) \<and>
   generateResponse const_builder mock_off (Synthetic returns_undefined None) ''/a''
     DUndefined DUndefined = Thrown (type_error ''throws'' ''undefined'')"
  using nullish_response_type_error [of DNull "Synthetic resolves_to_null None" "''/a''"
      DUndefined DUndefined const_builder mock_off]
    nullish_response_type_error [of DUndefined "Synthetic returns_undefined None" "''/a''"
      DUndefined DUndefined const_builder mock_off]
  by (simp add: resolves_to_null_def returns_undefined_def resolve_def async_return_def)

section \<open>Properties of response generation\<close>

text \<open>
  Claim C8. When the resolved value has a truthy \<^verbatim>\<open>throws\<close> property and is not
  callable, that property is thrown as it is. When the resolved value is callable, its
  \<^verbatim>\<open>throws\<close> property is ignored: the value is returned if it is a response, and is
  handed to the response builder otherwise.
\<close>

theorem generateResponse_throws_marker:
  assumes "resolve route url options request = Returned resp"
    and "get_prop resp ''throws'' = Inr t"
    and "truthy t"
  shows "generateResponse ms fm route url options request =
           (if is_callable resp
            then (if isResponse (config fm) resp then async_return (Inr resp)
                  else async_return (responseBuilder ms url resp fm route))
            else Thrown t)"
  using assms by (simp add: generateResponse_def)

theorem generateResponse_throws_marker_witness:
  "resolve (Synthetic throws_boom None) ''/a'' DUndefined DUndefined = Returned throws_boom \<and>
   get_prop throws_boom ''throws'' = Inr boom \<and> truthy boom \<and>
   generateResponse const_builder mock_off (Synthetic throws_boom None) ''/a''
     DUndefined DUndefined = Thrown boom \<and>
   resolve (Synthetic returns_spy None) ''/a'' DUndefined DUndefined = Returned spy \<and>
   get_prop spy ''throws'' = Inr boom \<and>
   generateResponse const_builder mock_off (Synthetic returns_spy None) ''/a''
     DUndefined DUndefined = Returned (JObj [(''status'', JData (DNum 200))])"
  using generateResponse_throws_marker [of "Synthetic throws_boom None" "''/a''" DUndefined
      DUndefined throws_boom boom const_builder mock_off]
    generateResponse_throws_marker [of "Synthetic returns_spy None" "''/a''" DUndefined
      DUndefined spy boom const_builder mock_off]
  by (simp add: resolve_def throws_boom_def boom_def spy_def returns_spy_def async_return_def
      await_thenable_def const_builder_def mock_off_def config_off_def)

section \<open>Properties of the router\<close>

lemma find_route_first:
  assumes "\<forall>x \<in> set pre. matcher x url options request = Inr False"
    and "matcher r url options request = Inr True"
  shows "find_route (pre @ r # post) url options request = Inr (Some r)"
  using assms by (induction pre) simp_all

lemma find_route_none:
  "\<forall>x \<in> set rs. matcher x url options request = Inr False \<Longrightarrow>
   find_route rs url options request = Inr None"
  by (induction rs) simp_all

text \<open>
  Claim C5. Whatever the registered routes, the router returns the first route, in
  the order of registration, whose matcher answers true, even when a later matcher
  would accept the request too; and the mock it leaves has one more call record, with
  the route's identifier.
\<close>

theorem router_first_match:
  assumes "routes fm = pre @ r # post"
    and "\<forall>x \<in> set pre. matcher x url options request = Inr False"
    and "matcher r url options request = Inr True"
  shows "router fm url options request =
           (Inr (Some r), fm\<lparr>calls := calls fm @ [matched_call url options request r]\<rparr>)"
  using assms by (simp add: router_def find_route_first push_def matched_call_def)

theorem router_first_match_witness:
  "routes mock_routes = [other_route] @ users_route # [any_route] \<and>
   matcher other_route ''/users'' DUndefined DUndefined = Inr False \<and>
   matcher users_route ''/users'' DUndefined DUndefined = Inr True \<and>
   matcher any_route ''/users'' DUndefined DUndefined = Inr True \<and>
   router mock_routes ''/users'' DUndefined DUndefined =
     (Inr (Some users_route),
      mock_routes\<lparr>calls := [\<lparr>cr_url = ''/users'', cr_options = DUndefined, cr_request = DUndefined,
              cr_identifier = DStr ''users'', cr_isUnmatched = DUndefined\<rparr>]\<rparr>)"
  using router_first_match [of mock_routes "[other_route]" users_route "[any_route]" "''/users''" DUndefined DUndefined]
  by (simp add: mock_routes_def mock_off_def other_route_def users_route_def any_route_def matched_call_def)

lemma getNativeFetch_routes [simp]: "getNativeFetch (fm\<lparr>routes := rs\<rparr>) = getNativeFetch fm"
  by (simp add: getNativeFetch_def)

lemma executeRouter_unmatched:
  assumes "fallbackToNetwork (config fm) \<noteq> DStr ''always''"
    and "\<forall>r \<in> set (routes fm). matcher r url options request = Inr False"
  shows "calls (snd (executeRouter fm url options request)) = calls fm @ [unmatched_call url options request]"
    and "truthy (fallbackResponse fm) \<Longrightarrow> fst (executeRouter fm url options request) = Inr (Synthetic (fallbackResponse fm) None)"
    and "\<not> truthy (fallbackResponse fm) \<Longrightarrow> truthy_data (fallbackToNetwork (config fm)) \<Longrightarrow> 
           fst (executeRouter fm url options request) = map_sum id (\<lambda>f. Synthetic f (Some True)) (getNativeFetch fm)"
    and "\<not> truthy (fallbackResponse fm) \<Longrightarrow> \<not> truthy_data (fallbackToNetwork (config fm)) \<Longrightarrow> 
           fst (executeRouter fm url options request) = Inl (JError ''Error''
                         (''fetch-mock: No fallback response defined for '' @
                          method_text options @ '' to '' @ url))"
  using assms 
  by (simp_all add: executeRouter_def router_def find_route_none push_def unmatched_call_def getNativeFetch_def Let_def)

lemma executeRouter_fetch_only_enabled:
  "fst (executeRouter fm url options request) = Inr (Synthetic f (Some True)) \<Longrightarrow>
   truthy_data (fallbackToNetwork (config fm))"
  by (auto simp: executeRouter_def router_def push_def Let_def split: if_splits sum.splits option.splits)

lemma executeRouter_unmatched_record:
  assumes "fallbackToNetwork (config fm) \<noteq> DStr ''always''"
    and "\<forall>r \<in> set (routes fm). matcher r url options request = Inr False"
  shows "calls (snd (executeRouter fm url options request)) =
           calls fm @ [\<lparr>cr_url = url, cr_options = options, cr_request = request,
                        cr_identifier = DUndefined, cr_isUnmatched = DBool True\<rparr>]"
  using assms
  by (simp add: executeRouter_def router_def find_route_none push_def unmatched_call_def Let_def)

lemma executeRouter_fetch_is_native:
  "fst (executeRouter fm url options request) = Inr (Synthetic f (Some True)) \<Longrightarrow>
   getNativeFetch fm = Inr f"
  by (auto simp: executeRouter_def router_def push_def Let_def getNativeFetch_def
      split: if_splits sum.splits option.splits)

text \<open>
  Claim C6, as amended. The decision order of \<^verbatim>\<open>executeRouter\<close>. With
  \<^verbatim>\<open>fallbackToNetwork\<close> set to \<^verbatim>\<open>'always'\<close> it asks for the native fetch whatever the
  route list is and records nothing: it returns that function with \<^verbatim>\<open>responseIsFetch\<close>
  true when there is one within reach, and throws the error of \<^verbatim>\<open>getNativeFetch\<close> when
  there is none. Otherwise, when no matcher accepts, it records one call with the url,
  the options, the request, no identifier and \<^verbatim>\<open>isUnmatched\<close> true, then returns the
  fallback response if there is one; if there is none and \<^verbatim>\<open>fallbackToNetwork\<close> is
  truthy, it returns the native fetch or throws for want of one. What it returns with
  \<^verbatim>\<open>responseIsFetch\<close> true is the native fetch, and \<^verbatim>\<open>fallbackToNetwork\<close> is then
  truthy.
\<close>

theorem executeRouter_decision_order:
  "(fallbackToNetwork (config fm) = DStr ''always'' \<longrightarrow>
      (getNativeFetch fm = Inr f \<longrightarrow>
         executeRouter (fm\<lparr>routes := rs\<rparr>) url options request =
           (Inr (Synthetic f (Some True)), fm\<lparr>routes := rs\<rparr>)) \<and>
      (getNativeFetch fm = Inl e \<longrightarrow>
         executeRouter (fm\<lparr>routes := rs\<rparr>) url options request =
           (Inl e, fm\<lparr>routes := rs\<rparr>))) \<and>
   (fallbackToNetwork (config fm) \<noteq> DStr ''always'' \<and>
    (\<forall>r \<in> set (routes fm). matcher r url options request = Inr False) \<longrightarrow>
      calls (snd (executeRouter fm url options request)) =
        calls fm @ [\<lparr>cr_url = url, cr_options = options, cr_request = request,
                     cr_identifier = DUndefined, cr_isUnmatched = DBool True\<rparr>] \<and>
      (truthy (fallbackResponse fm) \<longrightarrow>
         fst (executeRouter fm url options request) =
           Inr (Synthetic (fallbackResponse fm) None)) \<and>
      (\<not> truthy (fallbackResponse fm) \<and> truthy_data (fallbackToNetwork (config fm)) \<longrightarrow>
         (getNativeFetch fm = Inr f \<longrightarrow>
            fst (executeRouter fm url options request) = Inr (Synthetic f (Some True))) \<and>
         (getNativeFetch fm = Inl e \<longrightarrow>
            fst (executeRouter fm url options request) = Inl e))) \<and>
   (fst (executeRouter fm url options request) = Inr (Synthetic f (Some True)) \<longrightarrow>
      truthy_data (fallbackToNetwork (config fm)) \<and> getNativeFetch fm = Inr f)"
proof (intro conjI impI)
  assume "fallbackToNetwork (config fm) = DStr ''always''" and "getNativeFetch fm = Inr f"
  then show "executeRouter (fm\<lparr>routes := rs\<rparr>) url options request =
        (Inr (Synthetic f (Some True)), fm\<lparr>routes := rs\<rparr>)"
    by (simp add: executeRouter_def)
next
  assume "fallbackToNetwork (config fm) = DStr ''always''" and "getNativeFetch fm = Inl e"
  then show "executeRouter (fm\<lparr>routes := rs\<rparr>) url options request =
        (Inl e, fm\<lparr>routes := rs\<rparr>)"
    by (simp add: executeRouter_def)
next
  assume a: "fallbackToNetwork (config fm) \<noteq> DStr ''always'' \<and>
    (\<forall>r \<in> set (routes fm). matcher r url options request = Inr False)"
  then show "calls (snd (executeRouter fm url options request)) =
        calls fm @ [\<lparr>cr_url = url, cr_options = options, cr_request = request,
                     cr_identifier = DUndefined, cr_isUnmatched = DBool True\<rparr>]"
    by (simp add: executeRouter_unmatched_record)
  {
    assume "truthy (fallbackResponse fm)"
    with a show "fst (executeRouter fm url options request) =
           Inr (Synthetic (fallbackResponse fm) None)"
      by (simp add: executeRouter_unmatched(2))
  }
  {
    assume b: "\<not> truthy (fallbackResponse fm) \<and> truthy_data (fallbackToNetwork (config fm))"
    {
      assume "getNativeFetch fm = Inr f"
      with a b show "fst (executeRouter fm url options request) = Inr (Synthetic f (Some True))"
        by (simp add: executeRouter_unmatched(3))
    }
    {
      assume "getNativeFetch fm = Inl e"
      with a b show "fst (executeRouter fm url options request) = Inl e"
        by (simp add: executeRouter_unmatched(3))
    }
  }
next
  assume c: "fst (executeRouter fm url options request) = Inr (Synthetic f (Some True))"
  then show "truthy_data (fallbackToNetwork (config fm))"
    by (rule executeRouter_fetch_only_enabled)
  from c show "getNativeFetch fm = Inr f"
    by (rule executeRouter_fetch_is_native)
qed

lemma mock_always_facts:
  "fallbackToNetwork (config mock_always) = DStr ''always''"
  "getNativeFetch mock_always = Inr native_fetch"
  by (simp_all add: mock_always_def mock_off_def config_off_def getNativeFetch_def native_fetch_def)

lemma mock_network_facts:
  "fallbackToNetwork (config mock_network) = DBool True"
  "getNativeFetch mock_network = Inr native_fetch"
  "routes mock_network = [users_route]"
  "fallbackResponse mock_network = JData DUndefined"
  "calls mock_network = []"
  by (simp_all add: mock_network_def mock_off_def config_off_def getNativeFetch_def native_fetch_def)

lemma mock_fallback_facts:
  "fallbackToNetwork (config mock_fallback) = DBool True"
  "getNativeFetch mock_fallback = Inr native_fetch"
  "routes mock_fallback = [users_route]"
  "fallbackResponse mock_fallback = literal_200"
  "calls mock_fallback = []"
  by (simp_all add: mock_fallback_def mock_network_def mock_off_def config_off_def
      getNativeFetch_def native_fetch_def)

lemma mock_always_offline_facts:
  "fallbackToNetwork (config mock_always_offline) = DStr ''always''"
  "getNativeFetch mock_always_offline = Inl no_native_fetch"
  by (simp_all add: mock_always_offline_def mock_off_def config_off_def getNativeFetch_def
      no_native_fetch_def)

lemma mock_network_offline_facts:
  "fallbackToNetwork (config mock_network_offline) = DBool True"
  "getNativeFetch mock_network_offline = Inl no_native_fetch"
  "routes mock_network_offline = [users_route]"
  "fallbackResponse mock_network_offline = JData DUndefined"
  "calls mock_network_offline = []"
  by (simp_all add: mock_network_offline_def mock_off_def config_off_def getNativeFetch_def
      no_native_fetch_def)

theorem executeRouter_decision_order_witness:
  "fallbackToNetwork (config mock_always) = DStr ''always'' \<and>
   getNativeFetch mock_always = Inr native_fetch \<and>
   executeRouter (mock_always\<lparr>routes := [any_route]\<rparr>) ''/other'' DUndefined DUndefined =
     (Inr (Synthetic native_fetch (Some True)), mock_always\<lparr>routes := [any_route]\<rparr>) \<and>
   fallbackToNetwork (config mock_always_offline) = DStr ''always'' \<and>
   getNativeFetch mock_always_offline = Inl no_native_fetch \<and>
   executeRouter (mock_always_offline\<lparr>routes := [any_route]\<rparr>) ''/other'' DUndefined DUndefined =
     (Inl no_native_fetch, mock_always_offline\<lparr>routes := [any_route]\<rparr>) \<and>
   routes mock_fallback = [users_route] \<and> routes mock_network = [users_route] \<and>
   routes mock_network_offline = [users_route] \<and>
   matcher users_route ''/other'' DUndefined DUndefined = Inr False \<and>
   truthy (fallbackResponse mock_fallback) \<and>
   calls (snd (executeRouter mock_fallback ''/other'' DUndefined DUndefined)) =
     [\<lparr>cr_url = ''/other'', cr_options = DUndefined, cr_request = DUndefined,
       cr_identifier = DUndefined, cr_isUnmatched = DBool True\<rparr>] \<and>
   fst (executeRouter mock_fallback ''/other'' DUndefined DUndefined) =
     Inr (Synthetic literal_200 None) \<and>
   \<not> truthy (fallbackResponse mock_network) \<and>
   truthy_data (fallbackToNetwork (config mock_network)) \<and>
   calls (snd (executeRouter mock_network ''/other'' DUndefined DUndefined)) =
     [\<lparr>cr_url = ''/other'', cr_options = DUndefined, cr_request = DUndefined,
       cr_identifier = DUndefined, cr_isUnmatched = DBool True\<rparr>] \<and>
   fst (executeRouter mock_network ''/other'' DUndefined DUndefined) =
     Inr (Synthetic native_fetch (Some True)) \<and>
   \<not> truthy (fallbackResponse mock_network_offline) \<and>
   truthy_data (fallbackToNetwork (config mock_network_offline)) \<and>
   fst (executeRouter mock_network_offline ''/other'' DUndefined DUndefined) =
     Inl no_native_fetch"
  using executeRouter_decision_order [of mock_always native_fetch "[any_route]" "''/other''" DUndefined DUndefined no_native_fetch]
    executeRouter_decision_order [of mock_always_offline native_fetch "[any_route]" "''/other''" DUndefined DUndefined no_native_fetch]
    executeRouter_decision_order [of mock_fallback native_fetch "[]" "''/other''" DUndefined DUndefined no_native_fetch]
    executeRouter_decision_order [of mock_network native_fetch "[]" "''/other''" DUndefined DUndefined no_native_fetch]
    executeRouter_decision_order [of mock_network_offline native_fetch "[]" "''/other''" DUndefined DUndefined no_native_fetch]
  by (simp add: mock_always_facts mock_network_facts mock_fallback_facts mock_always_offline_facts
      mock_network_offline_facts users_route_def literal_200_def)

text \<open>
  Claim C6 as stated fails: with \<^verbatim>\<open>fallbackToNetwork\<close> set to \<^verbatim>\<open>'always'\<close> on a mock
  that has no native fetch within reach, \<^verbatim>\<open>executeRouter\<close> returns nothing and throws.
\<close>

theorem executeRouter_always_without_native_fetch:
  "fallbackToNetwork (config mock_always_offline) = DStr ''always'' \<and>
   executeRouter mock_always_offline ''/users'' DUndefined DUndefined =
     (Inl (JError ''Error''
        ''fetch-mock: Falling back to network only available on gloabl fetch-mock, or by setting config.fetch on sandboxed fetch-mock''),
      mock_always_offline)"
  by (simp add: executeRouter_def getNativeFetch_def mock_always_offline_def mock_off_def
      config_off_def)

lemma method_text_default:
  "\<not> truthy_data (guarded_prop options ''method'') \<Longrightarrow> method_text options = ''GET''"
  by (simp add: method_text_def)

lemma method_text_given:
  "get_data_prop options ''method'' = Inr (DStr m) \<Longrightarrow> m \<noteq> [] \<Longrightarrow> method_text options = m"
  by (cases options) (auto simp: method_text_def guarded_prop_def type_error_def split: if_splits)

text \<open>
  Claim C4. When no matcher accepts the normalised request, \<^verbatim>\<open>fallbackToNetwork\<close> is
  falsy and there is no fallback response, the entry point throws synchronously, and
  the message of the error names the method, \<^verbatim>\<open>GET\<close> when the options give none, and
  the url.
\<close>

theorem fetchHandler_no_fallback_throws:
  assumes "normalizeRequest ms url0 options0 = Inr (url, options, request)"
    and "\<forall>r \<in> set (routes fm). matcher r url options request = Inr False"
    and "\<not> truthy_data (fallbackToNetwork (config fm))"
    and "\<not> truthy (fallbackResponse fm)"
  shows "fst (fetchHandler ms fm url0 options0 request0) =
           SyncThrow (JError ''Error''
             (''fetch-mock: No fallback response defined for '' @ method_text options @
              '' to '' @ url)) \<and>
         (\<not> truthy_data (guarded_prop options ''method'') \<longrightarrow> method_text options = ''GET'') \<and>
         (\<forall>m. get_data_prop options ''method'' = Inr (DStr m) \<and> m \<noteq> [] \<longrightarrow>
              method_text options = m)"
proof -
  from assms(3) have na: "fallbackToNetwork (config fm) \<noteq> DStr ''always''" by auto
  have "fst (executeRouter fm url options request) = Inl (JError ''Error''
                         (''fetch-mock: No fallback response defined for '' @
                          method_text options @ '' to '' @ url))"
    using executeRouter_unmatched(4)[OF na assms(2) assms(4) assms(3)] .
  then have "fst (fetchHandler ms fm url0 options0 request0) =
           SyncThrow (JError ''Error''
             (''fetch-mock: No fallback response defined for '' @ method_text options @
              '' to '' @ url))"
    using assms(1) by (cases "executeRouter fm url options request") (simp add: fetchHandler_def)
  then show ?thesis by (simp add: method_text_default method_text_given)
qed

theorem fetchHandler_no_fallback_throws_witness:
  "normalizeRequest const_builder (DStr ''/other'') DUndefined = Inr (''/other'', DUndefined, DUndefined) \<and>
   routes mock_users = [users_route] \<and>
   matcher users_route ''/other'' DUndefined DUndefined = Inr False \<and>
   \<not> truthy_data (fallbackToNetwork (config mock_users)) \<and>
   \<not> truthy (fallbackResponse mock_users) \<and>
   fst (fetchHandler const_builder mock_users (DStr ''/other'') DUndefined DUndefined) =
     SyncThrow (JError ''Error'' ''fetch-mock: No fallback response defined for GET to /other'') \<and>
   normalizeRequest const_builder (DStr ''/other'') (DObj [(''method'', DStr ''POST'')]) =
     Inr (''/other'', DObj [(''method'', DStr ''POST'')], DUndefined) \<and>
   fst (fetchHandler const_builder mock_users (DStr ''/other'') (DObj [(''method'', DStr ''POST'')]) DUndefined) =
     SyncThrow (JError ''Error'' ''fetch-mock: No fallback response defined for POST to /other'')"
  using fetchHandler_no_fallback_throws [of const_builder "DStr ''/other''" DUndefined "''/other''"
      DUndefined DUndefined mock_users DUndefined]
    fetchHandler_no_fallback_throws [of const_builder "DStr ''/other''" "DObj [(''method'', DStr ''POST'')]" "''/other''"
      "DObj [(''method'', DStr ''POST'')]" DUndefined mock_users DUndefined]
  by (simp add: const_builder_def mock_users_def mock_off_def config_off_def users_route_def
      guarded_prop_def)

section \<open>Properties of the entry point\<close>

lemma executeRouter_keeps:
  "holdingPromises (snd (executeRouter fm url options request)) = holdingPromises fm"
  "routes (snd (executeRouter fm url options request)) = routes fm"
  "config (snd (executeRouter fm url options request)) = config fm"
  by (auto simp: executeRouter_def router_def push_def Let_def split: sum.splits option.splits)

lemma guarded_falsy: "\<not> truthy_data d \<Longrightarrow> guarded_prop d p = d"
  by (simp add: guarded_prop_def)

lemma executor_calls: "calls (snd (executor ms fm i route url options request)) = calls fm"
  by (auto simp: executor_def generate_def done_at_def Let_def split: sum.splits)

lemma executor_marker:
  "holdingPromises (snd (executor ms fm i route url options request)) =
     (if aborted_at_call options \<or>
         (case generation (fst (executor ms fm i route url options request)) of
            None \<Rightarrow> False | Some g \<Rightarrow> settles g)
      then (holdingPromises fm)[i := MarkerResolved] else holdingPromises fm)"
  by (auto simp: executor_def generate_def done_at_def Let_def aborted_at_call_def guarded_falsy
      split: sum.splits)

lemma fetchHandler_routed:
  assumes "normalizeRequest ms url0 options0 = Inr (url, options, request)"
    and "executeRouter fm url options request = (Inr route, fm1)"
  shows "fetchHandler ms fm url0 options0 request0 =
     (Promise (fst (executor ms (fm1\<lparr>holdingPromises := holdingPromises fm1 @ [MarkerUnresolved]\<rparr>)
                 (length (holdingPromises fm1)) route url options request)),
      snd (executor ms (fm1\<lparr>holdingPromises := holdingPromises fm1 @ [MarkerUnresolved]\<rparr>)
                 (length (holdingPromises fm1)) route url options request))"
  using assms by (simp add: fetchHandler_def Let_def split: prod.splits)

lemma fetchHandler_thrown:
  assumes "normalizeRequest ms url0 options0 = Inr (url, options, request)"
    and "executeRouter fm url options request = (Inl e, fm1)"
  shows "fetchHandler ms fm url0 options0 request0 = (SyncThrow e, fm1)"
  using assms by (simp add: fetchHandler_def)

lemma fetchHandler_calls:
  assumes "normalizeRequest ms url0 options0 = Inr (url, options, request)"
  shows "calls (snd (fetchHandler ms fm url0 options0 request0)) =
         calls (snd (executeRouter fm url options request))"
proof (cases "executeRouter fm url options request")
  case (Pair r fm1)
  show ?thesis
  proof (cases r)
    case (Inl e)
    with Pair assms show ?thesis by (simp add: fetchHandler_thrown)
  next
    case (Inr route)
    with Pair assms show ?thesis by (simp add: fetchHandler_routed executor_calls)
  qed
qed

lemma executeRouter_calls:
  assumes "fallbackToNetwork (config fm) \<noteq> DStr ''always''"
    and "find_route (routes fm) url options request = Inr m"
  shows "calls (snd (executeRouter fm url options request)) =
           calls fm @ [case m of Some r \<Rightarrow> matched_call url options request r
                       | None \<Rightarrow> unmatched_call url options request]"
  using assms by (auto simp: executeRouter_def router_def push_def Let_def split: option.splits)

lemma executeRouter_always_calls:
  "fallbackToNetwork (config fm) = DStr ''always'' \<Longrightarrow>
   snd (executeRouter fm url options request) = fm"
  by (simp add: executeRouter_def)

text \<open>
  Claim C2, as amended. A call whose request was normalised, on a mock whose
  \<^verbatim>\<open>fallbackToNetwork\<close> is not \<^verbatim>\<open>'always'\<close> and whose matchers do not throw, appends
  exactly one record to the end of the call log: the record of the matching route, or
  the unmatched record when there is none. This holds whatever the call then does
  (throw, reject, never settle or succeed). With \<^verbatim>\<open>'always'\<close> the log is left as it
  was.
\<close>

theorem fetchHandler_records_one_call:
  assumes "normalizeRequest ms url0 options0 = Inr (url, options, request)"
  shows "(fallbackToNetwork (config fm) \<noteq> DStr ''always'' \<and>
          find_route (routes fm) url options request = Inr m \<longrightarrow>
            calls (snd (fetchHandler ms fm url0 options0 request0)) =
              calls fm @ [case m of Some r \<Rightarrow> matched_call url options request r
                          | None \<Rightarrow> unmatched_call url options request]) \<and>
         (fallbackToNetwork (config fm) = DStr ''always'' \<longrightarrow>
            calls (snd (fetchHandler ms fm url0 options0 request0)) = calls fm)"
  by (simp add: fetchHandler_calls[OF assms] executeRouter_calls executeRouter_always_calls)

theorem fetchHandler_records_one_call_witness:
  "normalizeRequest const_builder (DStr ''/users'') DUndefined = Inr (''/users'', DUndefined, DUndefined) \<and>
   normalizeRequest const_builder (DStr ''/other'') DUndefined = Inr (''/other'', DUndefined, DUndefined) \<and>
   fallbackToNetwork (config mock_routes) = DBool False \<and>
   find_route (routes mock_routes) ''/users'' DUndefined DUndefined = Inr (Some users_route) \<and>
   calls (snd (fetchHandler const_builder mock_routes (DStr ''/users'') DUndefined DUndefined)) =
     [matched_call ''/users'' DUndefined DUndefined users_route] \<and>
   fallbackToNetwork (config mock_users) = DBool False \<and>
   find_route (routes mock_users) ''/other'' DUndefined DUndefined = Inr None \<and>
   calls (snd (fetchHandler const_builder mock_users (DStr ''/other'') DUndefined DUndefined)) =
     [unmatched_call ''/other'' DUndefined DUndefined] \<and>
   fallbackToNetwork (config mock_always) = DStr ''always'' \<and>
   calls (snd (fetchHandler const_builder mock_always (DStr ''/users'') DUndefined DUndefined)) = []"
  using fetchHandler_records_one_call [of const_builder "DStr ''/users''" DUndefined "''/users''"
      DUndefined DUndefined mock_routes "Some users_route" DUndefined]
    fetchHandler_records_one_call [of const_builder "DStr ''/other''" DUndefined "''/other''"
      DUndefined DUndefined mock_users None DUndefined]
    fetchHandler_records_one_call [of const_builder "DStr ''/users''" DUndefined "''/users''"
      DUndefined DUndefined mock_always None DUndefined]
  by (simp add: const_builder_def mock_routes_def mock_users_def mock_always_def mock_off_def
      config_off_def other_route_def users_route_def any_route_def)

text \<open>
  Claim C2 as stated fails: on a mock that always falls back to the network, a call
  appends no record.
\<close>

theorem fetchHandler_always_records_nothing:
  "calls mock_always = [] \<and>
   calls (snd (fetchHandler const_builder mock_always (DStr ''/users'') DUndefined DUndefined)) = []"
  by (simp add: fetchHandler_def executeRouter_def getNativeFetch_def executor_def generate_def
      guarded_prop_def done_at_def const_builder_def mock_always_def mock_off_def
      config_off_def native_fetch_def Let_def)

text \<open>
  Claim C3, as amended. When the options carry a signal that is already aborted and
  the router returned a match result, the returned promise rejects with the
  \<^verbatim>\<open>AbortError\<close>. Response generation is started all the same, unless the signal
  cannot take the listener; what it settles to is not what the caller sees.
\<close>

theorem fetchHandler_aborted_signal:
  assumes "normalizeRequest ms url0 options0 = Inr (url, options, request)"
    and "executeRouter fm url options request = (Inr route, fm1)"
    and "aborted_at_call options"
  shows "fst (fetchHandler ms fm url0 options0 request0) =
           Promise \<lparr>settled = Thrown AbortError,
                    generation =
                      (case addEventListener (guarded_prop options ''signal'') of
                         Inl e \<Rightarrow> None
                       | Inr u \<Rightarrow> Some (generateResponse ms
                           (fm1\<lparr>holdingPromises := holdingPromises fm1 @ [MarkerResolved]\<rparr>)
                           route url options request))\<rparr>"
  using assms(3)
  by (simp add: fetchHandler_routed[OF assms(1,2)] executor_def generate_def done_at_def
      aborted_at_call_def Let_def split: sum.splits)

theorem fetchHandler_aborted_signal_witness:
  "normalizeRequest const_builder (DStr ''/other'') aborted_options =
     Inr (''/other'', aborted_options, DUndefined) \<and>
   executeRouter mock_routes ''/other'' aborted_options DUndefined =
     (Inr (Matched other_route),
      mock_routes\<lparr>calls := [matched_call ''/other'' aborted_options DUndefined other_route]\<rparr>) \<and>
   aborted_at_call aborted_options \<and>
   fst (fetchHandler const_builder mock_routes (DStr ''/other'') aborted_options DUndefined) =
     Promise \<lparr>settled = Thrown AbortError, generation = Some (Thrown boom)\<rparr> \<and>
   normalizeRequest const_builder (DStr ''/other'') aborted_plain =
     Inr (''/other'', aborted_plain, DUndefined) \<and>
   executeRouter mock_routes ''/other'' aborted_plain DUndefined =
     (Inr (Matched other_route),
      mock_routes\<lparr>calls := [matched_call ''/other'' aborted_plain DUndefined other_route]\<rparr>) \<and>
   aborted_at_call aborted_plain \<and>
   fst (fetchHandler const_builder mock_routes (DStr ''/other'') aborted_plain DUndefined) =
     Promise \<lparr>settled = Thrown AbortError, generation = None\<rparr>"
  using fetchHandler_aborted_signal [of const_builder "DStr ''/other''" aborted_options "''/other''"
      aborted_options DUndefined mock_routes "Matched other_route"
      "mock_routes\<lparr>calls := [matched_call ''/other'' aborted_options DUndefined other_route]\<rparr>"
      DUndefined]
    fetchHandler_aborted_signal [of const_builder "DStr ''/other''" aborted_plain "''/other''"
      aborted_plain DUndefined mock_routes "Matched other_route"
      "mock_routes\<lparr>calls := [matched_call ''/other'' aborted_plain DUndefined other_route]\<rparr>"
      DUndefined]
  by (simp add: executeRouter_def router_def push_def generateResponse_def resolve_def
      async_return_def await_thenable_def guarded_prop_def aborted_at_call_def
      const_builder_def mock_routes_def mock_off_def config_off_def other_route_def
      aborted_options_def aborted_plain_def throws_boom_def boom_def Let_def)

text \<open>
  Claim C3 as stated fails: with an aborted signal, response generation runs, here up
  to the response that the builder made.
\<close>

theorem fetchHandler_aborted_still_generates:
  "fst (fetchHandler const_builder mock_users (DStr ''/users'') aborted_options DUndefined) =
     Promise \<lparr>settled = Thrown AbortError,
              generation = Some (Returned (JObj [(''status'', JData (DNum 200))]))\<rparr>"
  by (simp add: fetchHandler_def executeRouter_def router_def push_def executor_def generate_def
      generateResponse_def resolve_def async_return_def await_thenable_def done_at_def
      guarded_prop_def const_builder_def mock_users_def mock_off_def config_off_def users_route_def
      aborted_options_def literal_200_def Let_def)

lemma executor_generation:
  "(case generation (fst (executor ms fm i route url options request)) of
      None \<Rightarrow> True
    | Some g \<Rightarrow> g = generateResponse ms
        (if aborted_at_call options then done_at i fm else fm) route url options request)"
  by (auto simp: executor_def generate_def Let_def aborted_at_call_def guarded_falsy
      split: sum.splits)

text \<open>
  Claim C9, as amended. The holding promise is pushed after \<^verbatim>\<open>executeRouter\<close> has
  returned and before response generation starts. When \<^verbatim>\<open>executeRouter\<close> throws, the
  entry point throws that error and no holding promise is pushed. When it returns,
  exactly one is pushed, whatever the response does; it stays unresolved when the
  signal was not aborted and response generation was not started or never settles;
  and response generation, when it runs, runs on a mock that holds it already.
\<close>

theorem fetchHandler_marker_after_router:
  assumes "normalizeRequest ms url0 options0 = Inr (url, options, request)"
  shows "(executeRouter fm url options request = (Inl e, fm1) \<longrightarrow>
            fetchHandler ms fm url0 options0 request0 = (SyncThrow e, fm1) \<and>
            holdingPromises fm1 = holdingPromises fm) \<and>
         (executeRouter fm url options request = (Inr route, fm1) \<longrightarrow>
            (\<exists>p fm'. fetchHandler ms fm url0 options0 request0 = (Promise p, fm') \<and>
               holdingPromises fm' = holdingPromises fm @
                 [if aborted_at_call options \<or>
                     (case generation p of None \<Rightarrow> False | Some g \<Rightarrow> settles g)
                  then MarkerResolved else MarkerUnresolved] \<and>
               (case generation p of
                  None \<Rightarrow> True
                | Some g \<Rightarrow> g = generateResponse ms
                    (fm1\<lparr>holdingPromises := holdingPromises fm @
                       [if aborted_at_call options then MarkerResolved else MarkerUnresolved]\<rparr>)
                    route url options request)))"
proof (intro conjI impI)
  assume a: "executeRouter fm url options request = (Inl e, fm1)"
  with assms show "fetchHandler ms fm url0 options0 request0 = (SyncThrow e, fm1)"
    by (rule fetchHandler_thrown)
  from a show "holdingPromises fm1 = holdingPromises fm"
    using executeRouter_keeps(1)[of fm url options request] by simp
next
  assume a: "executeRouter fm url options request = (Inr route, fm1)"
  let ?fm2 = "fm1\<lparr>holdingPromises := holdingPromises fm1 @ [MarkerUnresolved]\<rparr>"
  let ?ex = "executor ms ?fm2 (length (holdingPromises fm1)) route url options request"
  have keep: "holdingPromises fm1 = holdingPromises fm"
    using executeRouter_keeps(1)[of fm url options request] a by simp
  have run: "fetchHandler ms fm url0 options0 request0 = (Promise (fst ?ex), snd ?ex)"
    by (rule fetchHandler_routed[OF assms a])
  have mark: "holdingPromises (snd ?ex) = holdingPromises fm @
                 [if aborted_at_call options \<or>
                     (case generation (fst ?ex) of None \<Rightarrow> False | Some g \<Rightarrow> settles g)
                  then MarkerResolved else MarkerUnresolved]"
    by (simp add: executor_marker keep)
  have gen: "(case generation (fst ?ex) of
                  None \<Rightarrow> True
                | Some g \<Rightarrow> g = generateResponse ms
                    (fm1\<lparr>holdingPromises := holdingPromises fm @
                       [if aborted_at_call options then MarkerResolved else MarkerUnresolved]\<rparr>)
                    route url options request)"
    using executor_generation[where ms = ms and fm = ?fm2 and i = "length (holdingPromises fm1)"
        and route = route and url = url and options = options and request = request]
    by (simp add: done_at_def keep split: option.splits if_splits)
  from run mark gen
  show "\<exists>p fm'. fetchHandler ms fm url0 options0 request0 = (Promise p, fm') \<and>
               holdingPromises fm' = holdingPromises fm @
                 [if aborted_at_call options \<or>
                     (case generation p of None \<Rightarrow> False | Some g \<Rightarrow> settles g)
                  then MarkerResolved else MarkerUnresolved] \<and>
               (case generation p of
                  None \<Rightarrow> True
                | Some g \<Rightarrow> g = generateResponse ms
                    (fm1\<lparr>holdingPromises := holdingPromises fm @
                       [if aborted_at_call options then MarkerResolved else MarkerUnresolved]\<rparr>)
                    route url options request)"
    by blast
qed

theorem fetchHandler_marker_after_router_witness:
  "normalizeRequest const_builder (DStr ''/slow'') DUndefined = Inr (''/slow'', DUndefined, DUndefined) \<and>
   executeRouter mock_slow ''/slow'' DUndefined DUndefined =
     (Inr (Matched slow_route),
      mock_slow\<lparr>calls := [matched_call ''/slow'' DUndefined DUndefined slow_route]\<rparr>) \<and>
   fetchHandler const_builder mock_slow (DStr ''/slow'') DUndefined DUndefined =
     (Promise \<lparr>settled = NeverSettles, generation = Some NeverSettles\<rparr>,
      mock_slow\<lparr>calls := [matched_call ''/slow'' DUndefined DUndefined slow_route],
                holdingPromises := [MarkerUnresolved]\<rparr>) \<and>
   normalizeRequest const_builder (DStr ''/other'') DUndefined = Inr (''/other'', DUndefined, DUndefined) \<and>
   executeRouter mock_slow ''/other'' DUndefined DUndefined =
     (Inl (JError ''Error'' ''fetch-mock: No fallback response defined for GET to /other''),
      mock_slow\<lparr>calls := [unmatched_call ''/other'' DUndefined DUndefined]\<rparr>) \<and>
   fetchHandler const_builder mock_slow (DStr ''/other'') DUndefined DUndefined =
     (SyncThrow (JError ''Error'' ''fetch-mock: No fallback response defined for GET to /other''),
      mock_slow\<lparr>calls := [unmatched_call ''/other'' DUndefined DUndefined]\<rparr>) \<and>
   holdingPromises (mock_slow\<lparr>calls := [unmatched_call ''/other'' DUndefined DUndefined]\<rparr>) = []"
  using fetchHandler_marker_after_router [where ms = const_builder and ?url0.0 = "DStr ''/slow''"
      and ?options0.0 = DUndefined and url = "''/slow''" and options = DUndefined
      and request = DUndefined and fm = mock_slow and route = "Matched slow_route"
      and ?fm1.0 = "mock_slow\<lparr>calls := [matched_call ''/slow'' DUndefined DUndefined slow_route]\<rparr>"
      and e = "JData DUndefined" and ?request0.0 = DUndefined]
    fetchHandler_marker_after_router [where ms = const_builder and ?url0.0 = "DStr ''/other''"
      and ?options0.0 = DUndefined and url = "''/other''" and options = DUndefined
      and request = DUndefined and fm = mock_slow and route = "Matched slow_route"
      and ?fm1.0 = "mock_slow\<lparr>calls := [unmatched_call ''/other'' DUndefined DUndefined]\<rparr>"
      and e = "JError ''Error'' ''fetch-mock: No fallback response defined for GET to /other''"
      and ?request0.0 = DUndefined]
  by (simp add: fetchHandler_def executeRouter_def router_def push_def executor_def generate_def
      generateResponse_def resolve_def promise_then_def guarded_prop_def method_text_def
      const_builder_def mock_slow_def mock_off_def config_off_def slow_route_def Let_def)

text \<open>
  Claim C9 as stated fails: on a request that no route matches and no fallback
  covers, the router has been asked and has recorded the request, and no holding
  promise exists.
\<close>

theorem fetchHandler_throw_leaves_no_marker:
  "fetchHandler const_builder mock_users (DStr ''/other'') DUndefined DUndefined =
     (SyncThrow (JError ''Error'' ''fetch-mock: No fallback response defined for GET to /other''),
      mock_users\<lparr>calls := [unmatched_call ''/other'' DUndefined DUndefined]\<rparr>) \<and>
   holdingPromises (mock_users\<lparr>calls := [unmatched_call ''/other'' DUndefined DUndefined]\<rparr>) = []"
  by (simp add: fetchHandler_def executeRouter_def router_def push_def guarded_prop_def
      method_text_def const_builder_def mock_users_def mock_off_def config_off_def
      users_route_def Let_def)

end
